theory Spec2Isabelle
  imports Main
begin

section \<open>Python strings\<close>

text \<open>
  The library is Python 2 and works on byte strings, so a string is a \<open>char list\<close>.
  The string methods the source calls are written out below: \<open>startswith\<close>,
  the substring test \<open>sub in s\<close>, \<open>split\<close> with and without a split limit,
  \<open>strip\<close>, \<open>join\<close>, \<open>str\<close> and \<open>int\<close>.
\<close>

definition startswith :: "string \<Rightarrow> string \<Rightarrow> bool" where
  "startswith s p = (take (length p) s = p)"

text \<open>\<open>contains sub s\<close> is Python's \<open>sub in s\<close>.\<close>

fun contains :: "string \<Rightarrow> string \<Rightarrow> bool" where
  "contains sub [] = (sub = [])"
| "contains sub (c # cs) = (startswith (c # cs) sub \<or> contains sub cs)"

text \<open>
  \<open>find_sep s sep\<close> cuts \<open>s\<close> at the leftmost occurrence of the separator, as
  \<open>split\<close> does when it scans from the left. The source only ever passes the
  literals \<open>'.'\<close> and \<open>'::'\<close>; an empty separator (a ValueError in Python) never
  occurs and is given no occurrence here.
\<close>

fun find_sep :: "string \<Rightarrow> string \<Rightarrow> (string \<times> string) option" where
  "find_sep [] sep = None"
| "find_sep (c # cs) sep =
     (if sep \<noteq> [] \<and> startswith (c # cs) sep then Some ([], drop (length sep) (c # cs))
      else (case find_sep cs sep of
              None \<Rightarrow> None
            | Some (a, b) \<Rightarrow> Some (c # a, b)))"

text \<open>\<open>split1 s sep\<close> is \<open>s.split(sep, 1)\<close>: at most one cut.\<close>

definition split1 :: "string \<Rightarrow> string \<Rightarrow> string list" where
  "split1 s sep = (case find_sep s sep of None \<Rightarrow> [s] | Some (a, b) \<Rightarrow> [a, b])"

lemma find_sep_empty: "find_sep s [] = None"
  by (induction s) simp_all

lemma find_sep_nonempty: "find_sep s sep = Some (a, b) \<Longrightarrow> sep \<noteq> []"
  using find_sep_empty by fastforce

text \<open>The cut loses nothing: the two pieces and the separator make up the string.\<close>

lemma find_sep_append: "find_sep s sep = Some (a, b) \<Longrightarrow> s = a @ sep @ b"
proof (induction s arbitrary: a)
  case Nil
  then show ?case by simp
next
  case (Cons c cs)
  show ?case
  proof (cases "sep \<noteq> [] \<and> startswith (c # cs) sep")
    case True
    with Cons.prems have "a = []" and "b = drop (length sep) (c # cs)"
      by simp_all
    moreover from True have "take (length sep) (c # cs) = sep"
      by (simp add: startswith_def)
    ultimately show ?thesis
      by (metis append_Nil append_take_drop_id)
  next
    case False
    with Cons.prems obtain a' where a': "find_sep cs sep = Some (a', b)" "a = c # a'"
      by (cases "find_sep cs sep") auto
    from Cons.IH [OF a'(1)] a'(2) show ?thesis by simp
  qed
qed

lemma find_sep_length:
  "find_sep s sep = Some (a, b) \<Longrightarrow> length a + length sep + length b = length s"
  using find_sep_append [of s sep a b] by simp

text \<open>\<open>split s sep\<close> is \<open>s.split(sep)\<close>: a cut at every occurrence, left to right.\<close>

function split :: "string \<Rightarrow> string \<Rightarrow> string list" where
  "split s sep = (case find_sep s sep of None \<Rightarrow> [s] | Some (a, b) \<Rightarrow> a # split b sep)"
  by pat_completeness auto
termination
proof (relation "measure (\<lambda>(s, sep). length s)")
  show "wf (measure (\<lambda>(s, sep). length s))" by simp
next
  fix s sep :: string and x2 :: "string \<times> string" and x y :: string
  assume "find_sep s sep = Some x2" and "(x, y) = x2"
  then have f: "find_sep s sep = Some (x, y)" by simp
  from find_sep_length [OF f] find_sep_nonempty [OF f]
  have "length y < length s" by (cases sep) auto
  then show "((y, sep), (s, sep)) \<in> measure (\<lambda>(s, sep). length s)" by simp
qed

declare split.simps [simp del]

lemma split_None: "find_sep s sep = None \<Longrightarrow> split s sep = [s]"
  by (simp add: split.simps)

lemma split_Some: "find_sep s sep = Some (a, b) \<Longrightarrow> split s sep = a # split b sep"
  by (simp add: split.simps)

definition join :: "string \<Rightarrow> string list \<Rightarrow> string" where
  "join sep xs = (case xs of [] \<Rightarrow> [] | y # ys \<Rightarrow> foldl (\<lambda>acc x. acc @ sep @ x) y ys)"

text \<open>Whitespace as \<open>str.strip()\<close> and \<open>int()\<close> see it in the C locale.\<close>

definition is_space :: "char \<Rightarrow> bool" where
  "is_space c = (c \<in> set [CHR '' '', CHR 0x09, CHR 0x0A, CHR 0x0B, CHR 0x0C, CHR 0x0D])"

definition strip :: "string \<Rightarrow> string" where
  "strip s = rev (dropWhile is_space (rev (dropWhile is_space s)))"

definition is_digit :: "char \<Rightarrow> bool" where
  "is_digit c = (c \<in> set ''0123456789'')"

definition digit_val :: "char \<Rightarrow> int" where
  "digit_val c = int (of_char c) - 48"

definition digits :: "string \<Rightarrow> int option" where
  "digits ds =
     (if ds \<noteq> [] \<and> list_all is_digit ds
      then Some (foldl (\<lambda>acc c. 10 * acc + digit_val c) 0 ds) else None)"

text \<open>
  \<open>py_int s\<close> is \<open>int(s)\<close> on a string in base 10: surrounding whitespace is dropped,
  one sign is allowed, and at least one decimal digit must follow. \<open>None\<close> stands for
  the ValueError. Python integers are unbounded, hence \<open>int\<close>. The general theorems
  below use only that \<open>int\<close> either gives an integer or raises; the grammar matters
  where a given string is evaluated.
\<close>

definition py_int :: "string \<Rightarrow> int option" where
  "py_int s =
     (case strip s of
        [] \<Rightarrow> None
      | c # cs \<Rightarrow>
          if c = CHR ''-'' then map_option uminus (digits cs)
          else if c = CHR ''+'' then digits cs
          else digits (c # cs))"

text \<open>\<open>str(n)\<close> for an integer: decimal digits, with a minus sign when negative.\<close>

function str_nat :: "nat \<Rightarrow> string" where
  "str_nat n =
     (if n < 10 then [''0123456789'' ! n]
      else str_nat (n div 10) @ [''0123456789'' ! (n mod 10)])"
  by pat_completeness auto
termination
  by (relation "measure id") auto

declare str_nat.simps [simp del]

definition str_int :: "int \<Rightarrow> string" where
  "str_int i = (if i < 0 then CHR ''-'' # str_nat (nat (- i)) else str_nat (nat i))"

section \<open>Errors\<close>

text \<open>
  Every exception the modelled code can raise is a value. The library itself raises only
  \<open>RuntimeError\<close> with a message; the other Python exceptions come from the
  interpreter (an unpacking that finds too few values, a name or attribute that is not
  bound, an index out of range, a call with the wrong number of arguments).
  \<open>RangeError\<close> and \<open>FormatError\<close> are the Value Codec's two failures, and
  \<open>PySnmpError\<close> is whatever the pysnmp command generator raises by itself.
\<close>

datatype error =
    RuntimeError string
  | ValueError string
  | NameError string
  | AttributeError string
  | IndexError
  | TypeError string
  | RangeError
  | FormatError
  | PySnmpError string

section \<open>OID parsing\<close>

text \<open>
  An element of the tuple \<open>_parse_oid\<close> returns is an integer, a string, or the pair
  \<open>(mib, sym)\<close>.
\<close>

datatype oid_part = Num int | Name string | MibSym string string

text \<open>\<open>try_int\<close>: the ValueError of \<open>int\<close> is caught and the string is returned as it came.\<close>

definition try_int :: "string \<Rightarrow> oid_part" where
  "try_int i = (case py_int i of Some n \<Rightarrow> Num n | None \<Rightarrow> Name i)"

definition unpack_error :: error where
  "unpack_error = ValueError ''need more than 1 value to unpack''"

text \<open>
  Lines 91 to 96 of \<open>_parse_oid\<close>, the block under \<open>if oid is None\<close>, reached from
  the two symbolic branches with \<open>mib\<close> and \<open>sym\<close> bound. The assignment
  \<open>sym, suffixes = sym.split('.', 1)\<close> unpacks exactly two values.
\<close>

definition parse_symbolic :: "string \<Rightarrow> string \<Rightarrow> error + oid_part list" where
  "parse_symbolic mib symbol =
     (case split1 symbol ''.'' of
        [name, suffixes] \<Rightarrow> Inr (MibSym mib name # map try_int (split suffixes ''.''))
      | _ \<Rightarrow> Inl unpack_error)"

text \<open>\<open>_parse_oid\<close>, with the branches in the order of the source.\<close>

definition parse_oid :: "string \<Rightarrow> error + oid_part list" where
  "parse_oid oid =
     (if contains ''::'' oid then
        (case split1 oid ''::'' of
           [mib, symbol] \<Rightarrow> parse_symbolic mib symbol
         | _ \<Rightarrow> Inl unpack_error)
      else if startswith oid ''.'' then Inr (map try_int (split (drop 1 oid) ''.''))
      else parse_symbolic [] oid)"

section \<open>SNMP values\<close>

text \<open>
  A keyword argument arrives as a Python string or integer (\<open>prim\<close>). An SNMP object is
  the distinguished \<open>Null\<close> or a value of one of the eight classes the library converts
  to, tagged with its class. \<open>set\<close> hands whatever it is given to the command generator:
  the source's own examples pass a plain string as well as a converted object.
\<close>

datatype prim = PyStr string | PyInt int

datatype tag =
  OctetString | Integer | Integer32 | Counter32 | Counter64 | Gauge32 | Unsigned32 | TimeTicks

datatype snmp_value = Null | Value tag prim

datatype py_value = Prim prim | Snmp snmp_value

text \<open>
  Modelled from the spec: the coercion of a raw input to an integer inside the Value Codec
  (section 4.1). The conversion lives in pysnmp's \<open>rfc1902\<close> classes, which are not part of
  this repository. A string that is not a decimal integer fails with \<open>FormatError\<close>.
\<close>

definition to_int :: "prim \<Rightarrow> error + int" where
  "to_int v =
     (case v of
        PyInt n \<Rightarrow> Inr n
      | PyStr s \<Rightarrow> (case py_int s of Some n \<Rightarrow> Inr n | None \<Rightarrow> Inl FormatError))"

text \<open>
  Modelled from the spec: the declared range of each numeric tag, lower and upper bound,
  of pysnmp's \<open>rfc1902\<close> classes (not part of this repository). Sections 3, 4.1 and 8 give
  Integer32 as signed 32-bit, Counter32 as unsigned 32-bit, Counter64 as unsigned 64-bit,
  and Gauge32 and Unsigned32 as rejecting negative inputs, read here with the width their
  names carry. The spec names no bound for Integer and TimeTicks, so none is imposed.
\<close>

definition declared_range :: "tag \<Rightarrow> int option \<times> int option" where
  "declared_range t =
     (case t of
        Integer32 \<Rightarrow> (Some (- (2 ^ 31)), Some (2 ^ 31 - 1))
      | Counter32 \<Rightarrow> (Some 0, Some (2 ^ 32 - 1))
      | Counter64 \<Rightarrow> (Some 0, Some (2 ^ 64 - 1))
      | Gauge32 \<Rightarrow> (Some 0, Some (2 ^ 32 - 1))
      | Unsigned32 \<Rightarrow> (Some 0, Some (2 ^ 32 - 1))
      | _ \<Rightarrow> (None, None))"

definition below :: "int option \<Rightarrow> int \<Rightarrow> bool" where
  "below lo n = (case lo of None \<Rightarrow> False | Some l \<Rightarrow> n < l)"

definition above :: "int option \<Rightarrow> int \<Rightarrow> bool" where
  "above hi n = (case hi of None \<Rightarrow> False | Some h \<Rightarrow> h < n)"

text \<open>
  Modelled from the spec: \<open>encode(tag, rawValue)\<close> of section 4.1, standing for the call
  \<open>rfc1902.<Tag>(value)\<close> into pysnmp, which is not part of this repository. It fails
  with \<open>RangeError\<close> outside the declared range and with \<open>FormatError\<close> when the input
  cannot be coerced; an octet string takes a string as it is.
\<close>

definition rfc1902 :: "tag \<Rightarrow> prim \<Rightarrow> error + snmp_value" where
  "rfc1902 t v =
     (if t = OctetString then
        (case v of PyStr s \<Rightarrow> Inr (Value OctetString (PyStr s)) | PyInt n \<Rightarrow> Inl FormatError)
      else
        (case to_int v of
           Inl e \<Rightarrow> Inl e
         | Inr n \<Rightarrow>
             if below (fst (declared_range t)) n \<or> above (snd (declared_range t)) n
             then Inl RangeError
             else Inr (Value t (PyInt n))))"

text \<open>The eight \<open>convert_to_*\<close> methods: each is one call of the class of its name.\<close>

definition convert_to_octetstring :: "prim \<Rightarrow> error + snmp_value" where
  "convert_to_octetstring v = rfc1902 OctetString v"

definition convert_to_integer :: "prim \<Rightarrow> error + snmp_value" where
  "convert_to_integer v = rfc1902 Integer v"

definition convert_to_integer32 :: "prim \<Rightarrow> error + snmp_value" where
  "convert_to_integer32 v = rfc1902 Integer32 v"

definition convert_to_counter32 :: "prim \<Rightarrow> error + snmp_value" where
  "convert_to_counter32 v = rfc1902 Counter32 v"

definition convert_to_counter64 :: "prim \<Rightarrow> error + snmp_value" where
  "convert_to_counter64 v = rfc1902 Counter64 v"

definition convert_to_gauge32 :: "prim \<Rightarrow> error + snmp_value" where
  "convert_to_gauge32 v = rfc1902 Gauge32 v"

definition convert_to_unsigned32 :: "prim \<Rightarrow> error + snmp_value" where
  "convert_to_unsigned32 v = rfc1902 Unsigned32 v"

definition convert_to_timeticks :: "prim \<Rightarrow> error + snmp_value" where
  "convert_to_timeticks v = rfc1902 TimeTicks v"

section \<open>The command generator and the state\<close>

text \<open>
  pysnmp's command generator is a parameter of the model. \<open>getCmd\<close> and \<open>setCmd\<close> take
  the community data \<open>(AGENT_NAME, community)\<close>, the transport target \<open>(host, port)\<close> and
  the parsed OID (with the value, for a SET); they return the four-tuple
  \<open>(error_indication, error_status, error_index, var_binds)\<close> or raise. An error
  indication is \<open>None\<close> or a text; an error status is a number with the text its
  \<open>prettyPrint()\<close> gives; a variable binding pairs a numeric OID with an object.
  \<open>prettyOut\<close> is the rendering \<open>get\<close> returns.
\<close>

datatype status = Status int string

fun status_value :: "status \<Rightarrow> int" where
  "status_value (Status n txt) = n"

fun prettyPrint :: "status \<Rightarrow> string" where
  "prettyPrint (Status n txt) = txt"

type_synonym community_data = "string \<times> string"
type_synonym transport_target = "string option \<times> int"
type_synonym var_bind = "int list \<times> snmp_value"
type_synonym response = "string option \<times> status \<times> int \<times> var_bind list"

record pysnmp =
  getCmd :: "community_data \<Rightarrow> transport_target \<Rightarrow> oid_part list \<Rightarrow> error + response"
  setCmd :: "community_data \<Rightarrow> transport_target \<Rightarrow> oid_part list \<times> py_value
               \<Rightarrow> error + response"
  prettyOut :: "snmp_value \<Rightarrow> string"

text \<open>
  The state is the instance (\<open>_host\<close>, \<open>_port\<close>, \<open>_community\<close>; \<open>None\<close> in the last
  two stands for an attribute that no method has assigned yet) together with what the
  methods touch outside it: the MIB path held by the MIB builder, the lines printed, and
  the exchanges handed to the command generator, oldest first.
\<close>

datatype request =
    GetRequest community_data transport_target "oid_part list"
  | SetRequest community_data transport_target "oid_part list" py_value

record state =
  host :: "string option"
  port :: "int option"
  community :: "string option"
  mib_path :: "string list"
  stdout :: "string list"
  sent :: "request list"

definition AGENT_NAME :: string where
  "AGENT_NAME = ''robotframework agent''"

text \<open>
  \<open>__init__\<close> binds \<open>_host\<close> to \<open>None\<close> and nothing else. The builder comes with the
  MIB path pysnmp gives it, a parameter here.
\<close>

definition init :: "string list \<Rightarrow> state" where
  "init builder_path =
     \<lparr>host = None, port = None, community = None, mib_path = builder_path,
      stdout = [], sent = []\<rparr>"

text \<open>\<open>set_host(host, port=161)\<close>: \<open>None\<close> for the port is a call that leaves it out.\<close>

definition set_host :: "state \<Rightarrow> string \<Rightarrow> int option \<Rightarrow> state" where
  "set_host s h p = s\<lparr>host := Some h, port := Some (case p of None \<Rightarrow> 161 | Some q \<Rightarrow> q)\<rparr>"

definition set_community_string :: "state \<Rightarrow> string \<Rightarrow> state" where
  "set_community_string s c = s\<lparr>community := Some c\<rparr>"

section \<open>Logging and the MIB search path\<close>

text \<open>
  \<open>_log\<close> as \<open>_info\<close> and \<open>_debug\<close> call it, with the level literals \<open>'INFO'\<close> and
  \<open>'DEBUG'\<close>: both pass \<open>_is_valid_log_level\<close> and are their own upper case. The
  message is stripped and printed unless empty.
\<close>

definition log :: "string \<Rightarrow> string \<Rightarrow> state \<Rightarrow> state" where
  "log msg level s =
     (let m = strip msg in
      if m \<noteq> [] then s\<lparr>stdout := stdout s @ [''*'' @ level @ ''* '' @ m]\<rparr> else s)"

definition info :: "string \<Rightarrow> state \<Rightarrow> state" where
  "info msg s = log msg ''INFO'' s"

definition debug :: "string \<Rightarrow> state \<Rightarrow> state" where
  "debug msg s = log msg ''DEBUG'' s"

text \<open>
  Modelled from the spec: the MIB builder's \<open>getMibPath\<close>, part of pysnmp and not of this
  repository. Section 6 has the lookup service hold an ordered search-path list; reading
  it returns that list.
\<close>

definition getMibPath :: "state \<Rightarrow> string list" where
  "getMibPath s = mib_path s"

text \<open>
  Modelled from the spec: the MIB builder's \<open>setMibPath\<close>, part of pysnmp and not of this
  repository. The lookup service accepts an ordered search-path list (section 6), which
  replaces the one it held.
\<close>

definition setMibPath :: "string list \<Rightarrow> state \<Rightarrow> state" where
  "setMibPath paths s = s\<lparr>mib_path := paths\<rparr>"

definition dquote :: string where
  "dquote = [CHR 0x22]"

text \<open>
  \<open>add_mib_search_path\<close>. The test \<open>os.path.exists\<close> asks the file system, a parameter.
\<close>

definition add_mib_search_path ::
    "(string \<Rightarrow> bool) \<Rightarrow> state \<Rightarrow> string \<Rightarrow> (error + unit) \<times> state" where
  "add_mib_search_path exists s path =
     (let s1 = info (''Adding MIB path '' @ path) s in
      if \<not> exists path
      then (Inl (RuntimeError (''Path '' @ dquote @ path @ dquote @ '' does not exist'')), s1)
      else
        (let paths = getMibPath s1 @ [path];
             s2 = debug (''New paths: '' @ join '' '' paths) s1
         in (Inr (), setMibPath paths s2)))"

section \<open>GET and SET\<close>

text \<open>
  \<open>if not self._host\<close> holds for \<open>None\<close> and for the empty string.
\<close>

definition host_unset :: "state \<Rightarrow> bool" where
  "host_unset s = (case host s of None \<Rightarrow> True | Some h \<Rightarrow> h = [])"

text \<open>
  Line 121 of \<open>get\<close> reads the name \<open>Null\<close>. The module imports \<open>os.path\<close>,
  \<open>builder\<close>, \<open>engine\<close>, \<open>cmdgen\<close>, \<open>univ\<close> and \<open>rfc1902\<close> and defines
  \<open>_SnmpConnection\<close>, \<open>try_int\<close> and \<open>SnmpLibrary\<close>; it never binds \<open>Null\<close>, and
  Python has no builtin of that name. Looking the name up raises NameError.
\<close>

definition global_Null :: "error + string option" where
  "global_Null = Inl (NameError ''Null'')"

definition str_indication :: "string option \<Rightarrow> string" where
  "str_indication i = (case i of None \<Rightarrow> ''None'' | Some txt \<Rightarrow> txt)"

text \<open>
  Lines 121 to 133 of \<open>get\<close>, as a function of the object the name \<open>Null\<close> evaluates
  to: the comparison \<open>error_indication is not Null\<close>, the test of the error status,
  the first variable binding (\<open>var[0]\<close>, an IndexError when there is none), the
  comparison of its object with \<open>univ.Null('')\<close>, and the rendering of the object.
  The \<open>raise\<close> on line 122 lacks its closing parenthesis in the source; it is read with
  the parenthesis closed.
\<close>

definition get_reply :: "pysnmp \<Rightarrow> string option \<Rightarrow> response \<Rightarrow> error + string" where
  "get_reply lib null r =
     (case r of (error_indication, error_status, error_index, var) \<Rightarrow>
        if error_indication \<noteq> null
        then Inl (RuntimeError (''SNMP GET failed: '' @ str_indication error_indication))
        else if status_value error_status \<noteq> 0
        then Inl (RuntimeError (''SNMP GET failed: '' @ prettyPrint error_status))
        else
          (case var of
             [] \<Rightarrow> Inl IndexError
           | (oid, obj) # rest \<Rightarrow>
               if obj = Null
               then Inl (RuntimeError (''Object with OID '' @ dquote @ ''.''
                      @ join ''.'' (map str_int oid) @ dquote @ '' not found''))
               else Inr (prettyOut lib obj)))"

text \<open>
  \<open>get\<close>: the host guard, the parse, the arguments of \<open>getCmd\<close> in the order Python
  evaluates them (\<open>_community\<close>, then \<open>_host\<close> and \<open>_port\<close>), the exchange, and the
  examination of the reply, which starts by looking up \<open>Null\<close>.
\<close>

definition get :: "pysnmp \<Rightarrow> state \<Rightarrow> string \<Rightarrow> (error + string) \<times> state" where
  "get lib s oid =
     (if host_unset s then (Inl (RuntimeError ''No host set''), s)
      else
        (case parse_oid oid of
           Inl e \<Rightarrow> (Inl e, s)
         | Inr parsed \<Rightarrow>
             (case community s of
                None \<Rightarrow> (Inl (AttributeError ''_community''), s)
              | Some c \<Rightarrow>
                  (case port s of
                     None \<Rightarrow> (Inl (AttributeError ''_port''), s)
                   | Some p \<Rightarrow>
                       (let s' = s\<lparr>sent := sent s @ [GetRequest (AGENT_NAME, c) (host s, p) parsed]\<rparr>
                        in case getCmd lib (AGENT_NAME, c) (host s, p) parsed of
                             Inl e \<Rightarrow> (Inl e, s')
                           | Inr r \<Rightarrow>
                               (case global_Null of
                                  Inl e \<Rightarrow> (Inl e, s')
                                | Inr null \<Rightarrow> (get_reply lib null r, s')))))))"

text \<open>
  \<open>set\<close> (named \<open>set_op\<close> here, \<open>set\<close> being taken). There is no host guard; the
  target is \<open>(self._host, 161)\<close>; the first component of the reply is dropped
  (\<open>_, error, _, var = ...\<close>) and only the error status is tested.
\<close>

definition set_op :: "pysnmp \<Rightarrow> state \<Rightarrow> string \<Rightarrow> py_value \<Rightarrow> (error + unit) \<times> state" where
  "set_op lib s oid v =
     (case parse_oid oid of
        Inl e \<Rightarrow> (Inl e, s)
      | Inr parsed \<Rightarrow>
          (case community s of
             None \<Rightarrow> (Inl (AttributeError ''_community''), s)
           | Some c \<Rightarrow>
               (let s' = s\<lparr>sent := sent s @ [SetRequest (AGENT_NAME, c) (host s, 161) parsed v]\<rparr>
                in case setCmd lib (AGENT_NAME, c) (host s, 161) (parsed, v) of
                     Inl e \<Rightarrow> (Inl e, s')
                   | Inr (ignored, error, error_index, var) \<Rightarrow>
                       if status_value error \<noteq> 0
                       then (Inl (RuntimeError (''SNMP SET failed: '' @ prettyPrint error)), s')
                       else (Inr (), s'))))"

section \<open>The convenience wrappers\<close>

text \<open>
  What the docstrings promise of every wrapper, written once from their words: "it does
  the same as a \<open>Convert To <Type>\<close> followed by a \<open>Set\<close>". A conversion that raises
  ends the call before \<open>set\<close> is reached.
\<close>

definition convert_then_set ::
    "(prim \<Rightarrow> error + snmp_value) \<Rightarrow> pysnmp \<Rightarrow> state \<Rightarrow> string \<Rightarrow> prim
       \<Rightarrow> (error + unit) \<times> state" where
  "convert_then_set convert lib s oid v =
     (case convert v of Inl e \<Rightarrow> (Inl e, s) | Inr obj \<Rightarrow> set_op lib s oid (Snmp obj))"

text \<open>Seven wrappers are \<open>def set_<type>(self, oid, value)\<close>, each with its own body.\<close>

definition set_integer :: "pysnmp \<Rightarrow> state \<Rightarrow> string \<Rightarrow> prim \<Rightarrow> (error + unit) \<times> state" where
  "set_integer lib s oid v =
     (case convert_to_integer v of
        Inl e \<Rightarrow> (Inl e, s)
      | Inr obj \<Rightarrow> set_op lib s oid (Snmp obj))"

definition set_integer32 :: "pysnmp \<Rightarrow> state \<Rightarrow> string \<Rightarrow> prim \<Rightarrow> (error + unit) \<times> state" where
  "set_integer32 lib s oid v =
     (case convert_to_integer32 v of
        Inl e \<Rightarrow> (Inl e, s)
      | Inr obj \<Rightarrow> set_op lib s oid (Snmp obj))"

definition set_counter32 :: "pysnmp \<Rightarrow> state \<Rightarrow> string \<Rightarrow> prim \<Rightarrow> (error + unit) \<times> state" where
  "set_counter32 lib s oid v =
     (case convert_to_counter32 v of
        Inl e \<Rightarrow> (Inl e, s)
      | Inr obj \<Rightarrow> set_op lib s oid (Snmp obj))"

definition set_counter64 :: "pysnmp \<Rightarrow> state \<Rightarrow> string \<Rightarrow> prim \<Rightarrow> (error + unit) \<times> state" where
  "set_counter64 lib s oid v =
     (case convert_to_counter64 v of
        Inl e \<Rightarrow> (Inl e, s)
      | Inr obj \<Rightarrow> set_op lib s oid (Snmp obj))"

definition set_gauge32 :: "pysnmp \<Rightarrow> state \<Rightarrow> string \<Rightarrow> prim \<Rightarrow> (error + unit) \<times> state" where
  "set_gauge32 lib s oid v =
     (case convert_to_gauge32 v of
        Inl e \<Rightarrow> (Inl e, s)
      | Inr obj \<Rightarrow> set_op lib s oid (Snmp obj))"

definition set_unsigned32 :: "pysnmp \<Rightarrow> state \<Rightarrow> string \<Rightarrow> prim \<Rightarrow> (error + unit) \<times> state" where
  "set_unsigned32 lib s oid v =
     (case convert_to_unsigned32 v of
        Inl e \<Rightarrow> (Inl e, s)
      | Inr obj \<Rightarrow> set_op lib s oid (Snmp obj))"

definition set_timeticks :: "pysnmp \<Rightarrow> state \<Rightarrow> string \<Rightarrow> prim \<Rightarrow> (error + unit) \<times> state" where
  "set_timeticks lib s oid v =
     (case convert_to_timeticks v of
        Inl e \<Rightarrow> (Inl e, s)
      | Inr obj \<Rightarrow> set_op lib s oid (Snmp obj))"

text \<open>
  \<open>set_octetstring\<close> is \<open>def set_octetstring(self, value)\<close>: one parameter after
  \<open>self\<close>. It is modelled on the list of positional arguments of the call, so that a
  call with an OID and a value is a TypeError, as Python makes it. With one argument the
  body converts it and then reads the name \<open>oid\<close>, which is neither a parameter nor a
  global of the module: a NameError.
\<close>

definition global_oid :: "error + string" where
  "global_oid = Inl (NameError ''oid'')"

definition set_octetstring :: "pysnmp \<Rightarrow> state \<Rightarrow> prim list \<Rightarrow> (error + unit) \<times> state" where
  "set_octetstring lib s args =
     (case args of
        [v] \<Rightarrow>
          (case convert_to_octetstring v of
             Inl e \<Rightarrow> (Inl e, s)
           | Inr obj \<Rightarrow>
               (case global_oid of
                  Inl e \<Rightarrow> (Inl e, s)
                | Inr oid \<Rightarrow> set_op lib s oid (Snmp obj)))
      | _ \<Rightarrow> (Inl (TypeError ''set_octetstring() takes exactly 2 arguments''), s))"

section \<open>The documented failures\<close>

text \<open>
  The failures the library documents, in the exceptions that carry them: every failure
  the library raises by itself is a \<open>RuntimeError\<close> with a message (no host, path not
  found, transport, agent, object not found), the Value Codec fails with \<open>RangeError\<close>
  or \<open>FormatError\<close>, and an unknown symbol is reported by pysnmp.
\<close>

fun documented :: "error \<Rightarrow> bool" where
  "documented (RuntimeError msg) = True"
| "documented RangeError = True"
| "documented FormatError = True"
| "documented (PySnmpError msg) = True"
| "documented e = False"

section \<open>Sample agents and sessions\<close>

definition render :: "snmp_value \<Rightarrow> string" where
  "render obj =
     (case obj of
        Null \<Rightarrow> []
      | Value t (PyStr txt) \<Rightarrow> txt
      | Value t (PyInt n) \<Rightarrow> str_int n)"

text \<open>An agent that answers every request with the same reply.\<close>

definition agent :: "response \<Rightarrow> pysnmp" where
  "agent r =
     \<lparr>getCmd = (\<lambda>c t oid. Inr r), setCmd = (\<lambda>c t ov. Inr r), prettyOut = render\<rparr>"

definition no_error :: status where
  "no_error = Status 0 ''noError''"

definition timed_out :: response where
  "timed_out = (Some ''requestTimedOut'', no_error, 0, [])"

definition no_such_object :: response where
  "no_such_object = (None, no_error, 0, [([1, 3, 6, 1, 2, 1, 1, 1, 0], Null)])"

definition accepted :: response where
  "accepted =
     (None, no_error, 0, [([1, 3, 6, 1, 2, 1, 1, 6, 0], Value OctetString (PyStr ''Test''))])"

text \<open>The session of the source's own example: host and community set, port left out.\<close>

definition example_session :: state where
  "example_session = set_community_string (set_host (init []) ''10.0.111.112'' None) ''private''"

section \<open>Facts about the string operations\<close>

lemma startswith_append: "startswith (p @ b) p"
  by (simp add: startswith_def)

lemma startswith_longer:
  "length p \<le> length u \<Longrightarrow> startswith (u @ v) p = startswith u p"
  by (simp add: startswith_def)

lemma contains_append: "sep \<noteq> [] \<Longrightarrow> contains sep (a @ sep @ b)"
proof (induction a)
  case Nil
  then obtain c cs where sep: "sep = c # cs" by (cases sep) auto
  have "startswith (sep @ b) sep" by (rule startswith_append)
  then show ?case by (simp add: sep)
next
  case (Cons x a)
  then show ?case by simp
qed

lemma find_sep_None: "\<not> contains sep s \<Longrightarrow> find_sep s sep = None"
  by (induction s) auto

lemma find_sep_found: "sep \<noteq> [] \<Longrightarrow> contains sep s \<Longrightarrow> \<exists>a b. find_sep s sep = Some (a, b)"
  by (induction s) (auto split: option.splits)

lemma find_sep_first:
  assumes "sep \<noteq> []" and "\<not> contains sep (a @ butlast sep)"
  shows "find_sep (a @ sep @ b) sep = Some (a, b)"
  using assms(2)
proof (induction a)
  case Nil
  from assms(1) obtain c cs where sep: "sep = c # cs" by (cases sep) auto
  have "startswith (sep @ b) sep" by (rule startswith_append)
  then show ?case using assms(1) by (simp add: sep)
next
  case (Cons x a)
  from Cons.prems have no: "\<not> startswith (x # a @ butlast sep) sep"
    and rest: "\<not> contains sep (a @ butlast sep)" by simp_all
  have split: "x # a @ sep @ b = (x # a @ butlast sep) @ (last sep # b)"
    using assms(1) by simp
  have "startswith (x # a @ sep @ b) sep = startswith (x # a @ butlast sep) sep"
    unfolding split by (rule startswith_longer) simp
  with no have "\<not> startswith (x # a @ sep @ b) sep" by simp
  with Cons.IH [OF rest] show ?case by simp
qed

lemma find_sep_dot:
  "\<not> contains ''.'' a \<Longrightarrow> find_sep (a @ ''.'' @ b) ''.'' = Some (a, b)"
  using find_sep_first [of "''.''" a b] by simp

lemma find_sep_colons:
  "\<not> contains ''::'' (a @ '':'') \<Longrightarrow> find_sep (a @ ''::'' @ b) ''::'' = Some (a, b)"
  using find_sep_first [of "''::''" a b] by simp

lemma parse_symbolic_suffix:
  "\<not> contains ''.'' symb \<Longrightarrow>
   parse_symbolic mib (symb @ ''.'' @ suffix)
     = Inr (MibSym mib symb # map try_int (split suffix ''.''))"
proof -
  assume "\<not> contains ''.'' symb"
  then have "find_sep (symb @ ''.'' @ suffix) ''.'' = Some (symb, suffix)"
    by (rule find_sep_dot)
  then show ?thesis
    by (simp only: parse_symbolic_def split1_def option.case prod.case list.case)
qed

lemma parse_symbolic_no_dot:
  "\<not> contains ''.'' symb \<Longrightarrow> parse_symbolic mib symb = Inl unpack_error"
  by (simp add: parse_symbolic_def split1_def find_sep_None)

lemma parse_oid_qualified:
  "\<not> contains ''::'' (mib @ '':'') \<Longrightarrow>
   parse_oid (mib @ ''::'' @ rest) = parse_symbolic mib rest"
proof -
  assume first: "\<not> contains ''::'' (mib @ '':'')"
  have "contains ''::'' (mib @ ''::'' @ rest)" by (rule contains_append) simp
  moreover have "split1 (mib @ ''::'' @ rest) ''::'' = [mib, rest]"
    using find_sep_colons [OF first] by (simp add: split1_def del: find_sep.simps)
  ultimately show ?thesis by (simp add: parse_oid_def del: contains.simps)
qed

lemma startswith_dot: "startswith s ''.'' = (\<exists>t. s = ''.'' @ t)"
  by (cases s) (auto simp: startswith_def)

lemma no_leading_dot:
  "symb \<noteq> [] \<Longrightarrow> \<not> contains ''.'' symb \<Longrightarrow> \<not> startswith (symb @ t) ''.''"
  by (cases symb) (auto simp: startswith_def)

lemma contains_length: "contains sep s \<Longrightarrow> length sep \<le> length s"
  by (induction s) (auto simp: startswith_def dest: arg_cong [where f = length])

text \<open>The cut is at the leftmost occurrence: the separator does not start earlier.\<close>

lemma find_sep_earliest:
  "find_sep s sep = Some (a, b) \<Longrightarrow> \<not> contains sep (a @ butlast sep)"
proof (induction s arbitrary: a)
  case Nil
  then show ?case by simp
next
  case (Cons c cs)
  from find_sep_nonempty [OF Cons.prems] have sep: "sep \<noteq> []" .
  show ?case
  proof (cases "startswith (c # cs) sep")
    case True
    with sep Cons.prems have "a = []" by simp
    moreover have "\<not> contains sep (butlast sep)"
    proof
      assume "contains sep (butlast sep)"
      then have "length sep \<le> length (butlast sep)" by (rule contains_length)
      then have "length sep \<le> length sep - 1" by (simp only: length_butlast)
      moreover from sep have "length sep \<noteq> 0" by simp
      ultimately show False by arith
    qed
    ultimately show ?thesis by simp
  next
    case False
    with Cons.prems obtain a' where a': "find_sep cs sep = Some (a', b)" "a = c # a'"
      by (cases "find_sep cs sep") auto
    from find_sep_append [OF a'(1)] have cs: "cs = a' @ sep @ b" .
    have split: "c # a' @ sep @ b = (c # a' @ butlast sep) @ (last sep # b)"
      using sep by simp
    have "startswith (c # a' @ sep @ b) sep = startswith (c # a' @ butlast sep) sep"
      unfolding split by (rule startswith_longer) simp
    with False cs have "\<not> startswith (c # a' @ butlast sep) sep" by simp
    with Cons.IH [OF a'(1)] a'(2) show ?thesis by simp
  qed
qed

text \<open>
  Every string has one of the forms the parser tells apart: a module before its first
  \<open>::\<close>, a leading dot, or neither; and what is read as a symbol either has no dot or
  splits at its first dot.
\<close>

lemma symbolic_forms:
  "\<not> contains ''.'' rest
   \<or> (\<exists>symb suffix. rest = symb @ ''.'' @ suffix \<and> \<not> contains ''.'' symb)"
proof (cases "contains ''.'' rest")
  case False
  then show ?thesis by simp
next
  case True
  then obtain a b where f: "find_sep rest ''.'' = Some (a, b)"
    using find_sep_found [of "''.''" rest] by auto
  from find_sep_append [OF f] find_sep_earliest [OF f] have "rest = a @ ''.'' @ b \<and> \<not> contains ''.'' a"
    by simp
  then show ?thesis by blast
qed

lemma oid_forms:
  "(\<exists>mib rest. oid = mib @ ''::'' @ rest \<and> \<not> contains ''::'' (mib @ '':''))
   \<or> (\<not> contains ''::'' oid \<and> (\<exists>rest. oid = ''.'' @ rest))
   \<or> (\<not> contains ''::'' oid \<and> \<not> startswith oid ''.'')"
proof (cases "contains ''::'' oid")
  case True
  then obtain a b where f: "find_sep oid ''::'' = Some (a, b)"
    using find_sep_found [of "''::''" oid] by auto
  from find_sep_append [OF f] find_sep_earliest [OF f]
  have "oid = a @ ''::'' @ b \<and> \<not> contains ''::'' (a @ '':'')" by simp
  then show ?thesis by blast
next
  case False
  then show ?thesis by (auto simp: startswith_dot)
qed

section \<open>The three notations of an OID\<close>

lemma no_colons_after_dot: "\<not> contains ''::'' rest \<Longrightarrow> \<not> contains ''::'' (''.'' @ rest)"
  by (simp add: startswith_def)

text \<open>The equations that evaluate a parse on a given string.\<close>

lemmas eval_parse =
  parse_oid_def parse_symbolic_def split1_def startswith_def split_None split_Some
  try_int_def py_int_def strip_def is_space_def digits_def is_digit_def digit_val_def

text \<open>
  Claim C1, as the code has it. \<open>_parse_oid\<close> looks for \<open>::\<close> first: the module is the
  text before the first \<open>::\<close>, and when the text after it has a dot, the symbol is what
  stands before the first dot and the result is the pair of module and symbol followed by
  the dot-separated rest, each component passed through \<open>try_int\<close>. Without \<open>::\<close>, a
  string with a leading dot is the tuple of the dot-separated components after that dot,
  each passed through \<open>try_int\<close>. Any other string that has a dot is read as symbol and
  suffix with the empty module. \<open>try_int\<close> gives the integer when the component parses
  as one and the component itself otherwise; it has no failing result. A symbolic
  expression with no dot after the symbol is left out here: it does not produce a tuple.
  In the statement, \<open>::\<close> not occurring in \<open>mib\<close> followed by one colon says that the
  \<open>::\<close> after \<open>mib\<close> is the first of the string, and no dot in \<open>symb\<close> says
  that the dot after it is the first.
\<close>

theorem parse_oid_dispatch:
  "(\<not> contains ''::'' (mib @ '':'') \<and> \<not> contains ''.'' symb \<longrightarrow>
      parse_oid (mib @ ''::'' @ symb @ ''.'' @ suffix)
        = Inr (MibSym mib symb # map try_int (split suffix ''.'')))
   \<and> (\<not> contains ''::'' rest \<longrightarrow>
      parse_oid (''.'' @ rest) = Inr (map try_int (split rest ''.'')))
   \<and> (symb \<noteq> [] \<and> \<not> contains ''.'' symb \<and> \<not> contains ''::'' (symb @ ''.'' @ suffix) \<longrightarrow>
      parse_oid (symb @ ''.'' @ suffix)
        = Inr (MibSym [] symb # map try_int (split suffix ''.'')))
   \<and> try_int c = (case py_int c of Some n \<Rightarrow> Num n | None \<Rightarrow> Name c)"
proof (intro conjI impI)
  assume "\<not> contains ''::'' (mib @ '':'') \<and> \<not> contains ''.'' symb"
  then have a: "\<not> contains ''::'' (mib @ '':'')" and b: "\<not> contains ''.'' symb"
    by simp_all
  show "parse_oid (mib @ ''::'' @ symb @ ''.'' @ suffix)
      = Inr (MibSym mib symb # map try_int (split suffix ''.''))"
    by (simp only: parse_oid_qualified [OF a] parse_symbolic_suffix [OF b])
next
  assume "\<not> contains ''::'' rest"
  then have a: "contains ''::'' (''.'' @ rest) = False"
    using no_colons_after_dot by simp
  have b: "startswith (''.'' @ rest) ''.'' = True"
    using startswith_append [of "''.''" rest] by simp
  have c: "drop 1 (''.'' @ rest) = rest" by simp
  show "parse_oid (''.'' @ rest) = Inr (map try_int (split rest ''.''))"
    by (simp only: parse_oid_def a b c if_True if_False)
next
  assume "symb \<noteq> [] \<and> \<not> contains ''.'' symb \<and> \<not> contains ''::'' (symb @ ''.'' @ suffix)"
  then have a: "symb \<noteq> []" and b: "\<not> contains ''.'' symb"
    and c: "contains ''::'' (symb @ ''.'' @ suffix) = False"
    by simp_all
  have d: "startswith (symb @ ''.'' @ suffix) ''.'' = False"
    using no_leading_dot [OF a b] by simp
  show "parse_oid (symb @ ''.'' @ suffix)
      = Inr (MibSym [] symb # map try_int (split suffix ''.''))"
    by (simp only: parse_oid_def c d if_False parse_symbolic_suffix [OF b])
next
  show "try_int c = (case py_int c of Some n \<Rightarrow> Num n | None \<Rightarrow> Name c)"
    by (simp only: try_int_def)
qed

text \<open>
  Witness for C1: the four notations listed in the source, parsed through the theorem.
\<close>

theorem parse_oid_dispatch_witness:
  "parse_oid ''SNMPv2-MIB::sysDescr.0'' = Inr [MibSym ''SNMPv2-MIB'' ''sysDescr'', Num 0]
   \<and> parse_oid ''.iso.org.6.internet.2.1.1.1.0''
       = Inr [Name ''iso'', Name ''org'', Num 6, Name ''internet'', Num 2, Num 1, Num 1, Num 1, Num 0]
   \<and> parse_oid ''sysDescr.0'' = Inr [MibSym [] ''sysDescr'', Num 0]
   \<and> try_int ''internet'' = Name ''internet''"
  using parse_oid_dispatch [where mib = "''SNMPv2-MIB''" and symb = "''sysDescr''"
      and suffix = "''0''" and rest = "''iso.org.6.internet.2.1.1.1.0''" and c = "''internet''"]
  by (simp add: eval_parse)

text \<open>
  Counterexample to C1 as stated for every string: \<open>sysDescr\<close> has no \<open>::\<close> and no
  leading dot, so it takes the third branch, but the result is not the one-element tuple
  of the pair of the empty module and the symbol. The unpacking on line 92 finds one value
  where it needs two and raises ValueError.
\<close>

theorem parse_oid_dispatch_counterexample:
  "parse_oid ''sysDescr'' = Inl (ValueError ''need more than 1 value to unpack'')
   \<and> parse_oid ''sysDescr'' \<noteq> Inr [MibSym [] ''sysDescr'']"
  by (simp add: eval_parse unpack_error_def)

section \<open>A symbol with no suffix\<close>

lemma get_parse_error:
  "\<not> host_unset s \<Longrightarrow> parse_oid oid = Inl e \<Longrightarrow> get lib s oid = (Inl e, s)"
  by (simp add: get_def)

lemma set_op_parse_error: "parse_oid oid = Inl e \<Longrightarrow> set_op lib s oid v = (Inl e, s)"
  by (simp add: set_op_def)

text \<open>
  Claim C10, as the code has it. For a symbolic expression with no dot after its symbol
  part (either the text after the first \<open>::\<close> has no dot, or the string has neither
  \<open>::\<close> nor a dot) \<open>_parse_oid\<close> raises ValueError, which is none of the documented
  failures. \<open>set\<close> parses first, so it raises the same error in every state and leaves
  the state as it was. \<open>get\<close> raises it whenever its host guard lets the call through,
  that is, on a session whose host is set.
\<close>

theorem parse_oid_no_suffix:
  "(\<not> contains ''::'' (mib @ '':'') \<and> \<not> contains ''.'' symb \<longrightarrow>
      parse_oid (mib @ ''::'' @ symb) = Inl unpack_error)
   \<and> (\<not> contains ''::'' symb \<and> \<not> contains ''.'' symb \<longrightarrow> parse_oid symb = Inl unpack_error)
   \<and> \<not> documented unpack_error
   \<and> (parse_oid oid = Inl unpack_error \<longrightarrow>
        set_op lib s oid v = (Inl unpack_error, s)
        \<and> (\<not> host_unset s \<longrightarrow> get lib s oid = (Inl unpack_error, s)))"
proof (intro conjI impI)
  assume "\<not> contains ''::'' (mib @ '':'') \<and> \<not> contains ''.'' symb"
  then have a: "\<not> contains ''::'' (mib @ '':'')" and b: "\<not> contains ''.'' symb"
    by simp_all
  show "parse_oid (mib @ ''::'' @ symb) = Inl unpack_error"
    by (simp only: parse_oid_qualified [OF a] parse_symbolic_no_dot [OF b])
next
  assume "\<not> contains ''::'' symb \<and> \<not> contains ''.'' symb"
  then have a: "contains ''::'' symb = False" and b: "\<not> contains ''.'' symb"
    by simp_all
  from b have c: "startswith symb ''.'' = False"
    by (cases symb) (simp_all add: startswith_def)
  show "parse_oid symb = Inl unpack_error"
    by (simp only: parse_oid_def a c if_False parse_symbolic_no_dot [OF b])
next
  show "\<not> documented unpack_error" by (simp add: unpack_error_def)
next
  assume "parse_oid oid = Inl unpack_error"
  then show "set_op lib s oid v = (Inl unpack_error, s)" by (rule set_op_parse_error)
next
  assume "parse_oid oid = Inl unpack_error" and "\<not> host_unset s"
  then show "get lib s oid = (Inl unpack_error, s)" by (simp add: get_parse_error)
qed

text \<open>
  Witness for C10: \<open>SNMPv2-MIB::sysDescr\<close> and \<open>sysDescr\<close>, the latter also through
  \<open>set\<close> and \<open>get\<close> on the example session.
\<close>

theorem parse_oid_no_suffix_witness:
  "parse_oid ''SNMPv2-MIB::sysDescr'' = Inl unpack_error
   \<and> parse_oid ''sysDescr'' = Inl unpack_error
   \<and> \<not> documented unpack_error
   \<and> set_op (agent accepted) example_session ''sysDescr'' (Prim (PyStr ''Test''))
       = (Inl unpack_error, example_session)
   \<and> \<not> host_unset example_session
   \<and> get (agent accepted) example_session ''sysDescr'' = (Inl unpack_error, example_session)"
  using parse_oid_no_suffix [where mib = "''SNMPv2-MIB''" and symb = "''sysDescr''"
      and oid = "''sysDescr''" and lib = "agent accepted" and s = example_session
      and v = "Prim (PyStr ''Test'')"]
  by (simp add: eval_parse host_unset_def example_session_def set_host_def
      set_community_string_def init_def)

text \<open>
  Counterexample to C10 as stated for any \<open>get\<close>: on a fresh instance the host guard
  comes before the parse, and \<open>get\<close> of \<open>sysDescr\<close> fails with the documented
  \<open>No host set\<close>.
\<close>

theorem get_no_suffix_counterexample:
  "get (agent accepted) (init []) ''sysDescr'' = (Inl (RuntimeError ''No host set''), init [])
   \<and> documented (RuntimeError ''No host set'')"
  by (simp add: get_def host_unset_def init_def)

section \<open>Adding a MIB search path\<close>

text \<open>Logging prints and changes nothing else.\<close>

lemma log_only_prints: "log msg level s = s\<lparr>stdout := stdout (log msg level s)\<rparr>"
  by (simp add: log_def Let_def)

lemma log_mib_path: "mib_path (log msg level s) = mib_path s"
  by (simp add: log_def Let_def)

text \<open>
  Claim C4. With a path that does not exist, \<open>add_mib_search_path\<close> fails with the
  RuntimeError \<open>Path "..." does not exist\<close> (the library's path-not-found failure) and
  the MIB search path is as it was; the state differs from the one before only in the
  line that was printed. With a path that exists, the call returns and the search path is
  the old one with the new path appended at the end.
\<close>

theorem add_mib_search_path_spec:
  "(\<not> exists path \<longrightarrow>
      fst (add_mib_search_path exists s path)
        = Inl (RuntimeError (''Path '' @ dquote @ path @ dquote @ '' does not exist''))
      \<and> getMibPath (snd (add_mib_search_path exists s path)) = getMibPath s
      \<and> (snd (add_mib_search_path exists s path))\<lparr>stdout := stdout s\<rparr> = s)
   \<and> (exists path \<longrightarrow>
      fst (add_mib_search_path exists s path) = Inr ()
      \<and> getMibPath (snd (add_mib_search_path exists s path)) = getMibPath s @ [path])"
proof (intro conjI impI)
  assume no: "\<not> exists path"
  then have r: "add_mib_search_path exists s path
      = (Inl (RuntimeError (''Path '' @ dquote @ path @ dquote @ '' does not exist'')),
         info (''Adding MIB path '' @ path) s)"
    by (simp add: add_mib_search_path_def Let_def)
  show "fst (add_mib_search_path exists s path)
      = Inl (RuntimeError (''Path '' @ dquote @ path @ dquote @ '' does not exist''))"
    by (simp only: r fst_conv)
  show "getMibPath (snd (add_mib_search_path exists s path)) = getMibPath s"
    by (simp only: r snd_conv getMibPath_def info_def log_mib_path)
  show "(snd (add_mib_search_path exists s path))\<lparr>stdout := stdout s\<rparr> = s"
    by (simp add: r info_def log_def Let_def)
next
  assume yes: "exists path"
  then have r: "add_mib_search_path exists s path
      = (Inr (),
         setMibPath (getMibPath (info (''Adding MIB path '' @ path) s) @ [path])
           (debug (''New paths: ''
              @ join '' '' (getMibPath (info (''Adding MIB path '' @ path) s) @ [path]))
              (info (''Adding MIB path '' @ path) s)))"
    by (simp add: add_mib_search_path_def Let_def)
  show "fst (add_mib_search_path exists s path) = Inr ()"
    by (simp only: r fst_conv)
  show "getMibPath (snd (add_mib_search_path exists s path)) = getMibPath s @ [path]"
    by (simp add: r getMibPath_def setMibPath_def info_def log_mib_path)
qed

text \<open>A file system in which \<open>/usr/share/mibs/\<close> is the only path that exists.\<close>

definition only_usr_share_mibs :: "string \<Rightarrow> bool" where
  "only_usr_share_mibs p = (p = ''/usr/share/mibs/'')"

text \<open>
  Witness for C4: on a builder holding two paths, a missing path is refused and leaves
  the two, and the existing path becomes the third.
\<close>

theorem add_mib_search_path_spec_witness:
  "\<not> only_usr_share_mibs ''/nowhere''
   \<and> fst (add_mib_search_path only_usr_share_mibs (init [''/a'', ''/b'']) ''/nowhere'')
       = Inl (RuntimeError (''Path '' @ dquote @ ''/nowhere'' @ dquote @ '' does not exist''))
   \<and> getMibPath (snd (add_mib_search_path only_usr_share_mibs (init [''/a'', ''/b'']) ''/nowhere''))
       = [''/a'', ''/b'']
   \<and> only_usr_share_mibs ''/usr/share/mibs/''
   \<and> fst (add_mib_search_path only_usr_share_mibs (init [''/a'', ''/b'']) ''/usr/share/mibs/'')
       = Inr ()
   \<and> getMibPath (snd (add_mib_search_path only_usr_share_mibs (init [''/a'', ''/b''])
         ''/usr/share/mibs/''))
       = [''/a'', ''/b'', ''/usr/share/mibs/'']"
  using add_mib_search_path_spec [of only_usr_share_mibs "''/nowhere''" "init [''/a'', ''/b'']"]
    add_mib_search_path_spec [of only_usr_share_mibs "''/usr/share/mibs/''" "init [''/a'', ''/b'']"]
  by (simp add: only_usr_share_mibs_def getMibPath_def init_def)

section \<open>Integer ranges of the Value Codec\<close>

lemma rfc1902_negative:
  "to_int v = Inr n \<Longrightarrow> n < 0 \<Longrightarrow> fst (declared_range t) = Some 0 \<Longrightarrow> t \<noteq> OctetString
   \<Longrightarrow> rfc1902 t v = Inl RangeError"
  by (simp add: rfc1902_def below_def)

text \<open>
  Claim C8. The Integer32 conversion succeeds at \<open>2^31 - 1\<close> and at \<open>-2^31\<close>, and fails
  with \<open>RangeError\<close> at \<open>2^31\<close> and at \<open>-2^31 - 1\<close>. The conversions to Counter32,
  Counter64, Gauge32 and Unsigned32 fail with \<open>RangeError\<close> on every negative input,
  whether it is given as an integer or as a string that reads as one.
\<close>

theorem integer32_bounds:
  "convert_to_integer32 (PyInt (2 ^ 31 - 1)) = Inr (Value Integer32 (PyInt (2 ^ 31 - 1)))
   \<and> convert_to_integer32 (PyInt (- (2 ^ 31))) = Inr (Value Integer32 (PyInt (- (2 ^ 31))))
   \<and> convert_to_integer32 (PyInt (2 ^ 31)) = Inl RangeError
   \<and> convert_to_integer32 (PyInt (- (2 ^ 31) - 1)) = Inl RangeError
   \<and> (to_int v = Inr n \<and> n < 0 \<longrightarrow>
        convert_to_counter32 v = Inl RangeError
        \<and> convert_to_counter64 v = Inl RangeError
        \<and> convert_to_gauge32 v = Inl RangeError
        \<and> convert_to_unsigned32 v = Inl RangeError)"
proof (intro conjI impI)
  show "convert_to_integer32 (PyInt (2 ^ 31 - 1)) = Inr (Value Integer32 (PyInt (2 ^ 31 - 1)))"
    by (simp add: convert_to_integer32_def rfc1902_def to_int_def declared_range_def
        below_def above_def)
  show "convert_to_integer32 (PyInt (- (2 ^ 31))) = Inr (Value Integer32 (PyInt (- (2 ^ 31))))"
    by (simp add: convert_to_integer32_def rfc1902_def to_int_def declared_range_def
        below_def above_def)
  show "convert_to_integer32 (PyInt (2 ^ 31)) = Inl RangeError"
    by (simp add: convert_to_integer32_def rfc1902_def to_int_def declared_range_def
        below_def above_def)
  show "convert_to_integer32 (PyInt (- (2 ^ 31) - 1)) = Inl RangeError"
    by (simp add: convert_to_integer32_def rfc1902_def to_int_def declared_range_def
        below_def above_def)
next
  assume a: "to_int v = Inr n \<and> n < 0"
  then have v: "to_int v = Inr n" and n: "n < 0" by simp_all
  show "convert_to_counter32 v = Inl RangeError"
    unfolding convert_to_counter32_def
    by (rule rfc1902_negative [OF v n]) (simp_all add: declared_range_def)
  show "convert_to_counter64 v = Inl RangeError"
    unfolding convert_to_counter64_def
    by (rule rfc1902_negative [OF v n]) (simp_all add: declared_range_def)
  show "convert_to_gauge32 v = Inl RangeError"
    unfolding convert_to_gauge32_def
    by (rule rfc1902_negative [OF v n]) (simp_all add: declared_range_def)
  show "convert_to_unsigned32 v = Inl RangeError"
    unfolding convert_to_unsigned32_def
    by (rule rfc1902_negative [OF v n]) (simp_all add: declared_range_def)
qed

text \<open>
  Witness for C8: the string \<open>-1\<close> reads as a negative integer and is refused by the
  four unsigned conversions.
\<close>

theorem integer32_bounds_witness:
  "to_int (PyStr ''-1'') = Inr (- 1) \<and> (- 1 :: int) < 0
   \<and> convert_to_counter32 (PyStr ''-1'') = Inl RangeError
   \<and> convert_to_counter64 (PyStr ''-1'') = Inl RangeError
   \<and> convert_to_gauge32 (PyStr ''-1'') = Inl RangeError
   \<and> convert_to_unsigned32 (PyStr ''-1'') = Inl RangeError
   \<and> convert_to_integer32 (PyInt 2147483647) = Inr (Value Integer32 (PyInt 2147483647))
   \<and> convert_to_integer32 (PyInt 2147483648) = Inl RangeError"
  using integer32_bounds [of "PyStr ''-1''" "- 1"]
  by (simp add: to_int_def eval_parse)

section \<open>What GET and SET do with a reply\<close>

lemmas eval_session =
  example_session_def set_host_def set_community_string_def init_def host_unset_def
  agent_def timed_out_def no_such_object_def accepted_def no_error_def AGENT_NAME_def

text \<open>
  \<open>get\<close> before \<open>set_host\<close>: the guard on line 110 raises \<open>No host set\<close>, the state
  is untouched and no exchange is handed to the command generator.
\<close>

lemma get_before_set_host:
  "host s = None \<Longrightarrow> get lib s oid = (Inl (RuntimeError ''No host set''), s)"
  by (simp add: get_def host_unset_def)

text \<open>
  \<open>get\<close> never returns a value: whatever passes the guard, the parse, the attribute
  lookups and the exchange ends at the lookup of \<open>Null\<close>.
\<close>

lemma get_never_returns: "\<exists>e. fst (get lib s oid) = Inl e"
  by (simp add: get_def global_Null_def Let_def split: sum.splits option.splits)

text \<open>
  Were \<open>Null\<close> bound to \<open>None\<close>, lines 121 to 133 would report an error indication
  with its text and a \<open>Null\<close> object with the numeric OID it came with.
\<close>

lemma get_reply_indication:
  "get_reply lib None (Some txt, st, i, var) = Inl (RuntimeError (''SNMP GET failed: '' @ txt))"
  by (simp add: get_reply_def str_indication_def)

lemma get_reply_Null:
  "get_reply lib None (None, Status 0 txt, i, (oid, Null) # rest)
     = Inl (RuntimeError (''Object with OID '' @ dquote @ ''.''
         @ join ''.'' (map str_int oid) @ dquote @ '' not found''))"
  by (simp add: get_reply_def)

text \<open>
  \<open>set\<close> succeeds on every reply whose error status is zero, whatever its error
  indication, and every exchange it starts goes to port 161 of \<open>_host\<close>.
\<close>

lemma set_op_drops_indication:
  "parse_oid oid = Inr parsed \<Longrightarrow> community s = Some c
   \<Longrightarrow> setCmd lib (AGENT_NAME, c) (host s, 161) (parsed, v) = Inr (ind, Status 0 txt, i, var)
   \<Longrightarrow> fst (set_op lib s oid v) = Inr ()"
  by (simp add: set_op_def Let_def)

lemma set_op_port:
  "parse_oid oid = Inr parsed \<Longrightarrow> community s = Some c
   \<Longrightarrow> sent (snd (set_op lib s oid v))
       = sent s @ [SetRequest (AGENT_NAME, c) (host s, 161) parsed v]"
  by (simp add: set_op_def Let_def split: sum.splits prod.splits)

text \<open>
  Claim C2, at a failing input. The agent does not answer and the command generator
  returns the error indication \<open>requestTimedOut\<close> with error status 0. The claim has
  both operations fail with the transport failure carrying that indication. \<open>set\<close>
  returns normally: it drops the indication. \<open>get\<close> fails, but with the NameError of
  the unbound \<open>Null\<close>, which carries no indication.
\<close>

theorem error_indication_not_reported:
  "fst (set_op (agent timed_out) example_session ''.1.3.6.1.2.1.1.6.0''
          (Snmp (Value OctetString (PyStr ''Test'')))) = Inr ()
   \<and> fst (get (agent timed_out) example_session ''.1.3.6.1.2.1.1.1.0'')
       = Inl (NameError ''Null'')"
  by (simp add: set_op_def get_def global_Null_def eval_session eval_parse)

text \<open>
  Claim C3, at a failing input. On an instance whose community is set and whose host is
  not, the claim has \<open>set\<close> fail with \<open>No host set\<close> and start no exchange. \<open>set\<close>
  has no guard: it hands the command generator an exchange whose target host is \<open>None\<close>
  and returns normally when the reply carries error status 0.
\<close>

theorem set_before_set_host:
  "set_op (agent accepted) (set_community_string (init []) ''private'') ''.1.3.6.1.2.1.1.6.0''
       (Snmp (Value OctetString (PyStr ''Test'')))
     = (Inr (),
        (set_community_string (init []) ''private'')
          \<lparr>sent := [SetRequest (AGENT_NAME, ''private'') (None, 161)
                     [Num 1, Num 3, Num 6, Num 1, Num 2, Num 1, Num 1, Num 6, Num 0]
                     (Snmp (Value OctetString (PyStr ''Test'')))]\<rparr>)"
  by (simp add: set_op_def eval_session eval_parse)

text \<open>
  Claim C6, at a failing input. The exchange succeeds and the one variable binding
  carries \<open>Null\<close>. The claim has \<open>get\<close> fail with the object-not-found error naming
  \<open>.1.3.6.1.2.1.1.1.0\<close>. \<open>get\<close> fails with the NameError of the unbound \<open>Null\<close> on
  line 121 and never reaches the comparison on line 129.
\<close>

theorem get_null_object:
  "fst (get (agent no_such_object) example_session ''.1.3.6.1.2.1.1.1.0'')
     = Inl (NameError ''Null'')"
  by (simp add: get_def global_Null_def eval_session eval_parse)

text \<open>
  Claim C7, at a failing input. After \<open>set_host('10.0.111.112', 1161)\<close> the claim has the
  SET exchange go to port 1161, as the GET exchange does. \<open>set\<close> sends it to port 161.
\<close>

theorem set_ignores_port:
  "sent (snd (set_op (agent accepted)
            (set_community_string (set_host (init []) ''10.0.111.112'' (Some 1161)) ''private'')
            ''.1.3.6.1.2.1.1.6.0'' (Snmp (Value OctetString (PyStr ''Test'')))))
     = [SetRequest (AGENT_NAME, ''private'') (Some ''10.0.111.112'', 161)
          [Num 1, Num 3, Num 6, Num 1, Num 2, Num 1, Num 1, Num 6, Num 0]
          (Snmp (Value OctetString (PyStr ''Test'')))]
   \<and> sent (snd (get (agent accepted)
            (set_community_string (set_host (init []) ''10.0.111.112'' (Some 1161)) ''private'')
            ''.1.3.6.1.2.1.1.6.0''))
     = [GetRequest (AGENT_NAME, ''private'') (Some ''10.0.111.112'', 1161)
          [Num 1, Num 3, Num 6, Num 1, Num 2, Num 1, Num 1, Num 6, Num 0]]"
  by (simp add: set_op_def get_def global_Null_def eval_session eval_parse)

section \<open>The wrappers against their documentation\<close>

text \<open>The seven wrappers with an \<open>oid\<close> parameter are the documented composition.\<close>

lemma set_integer_composes: "set_integer = convert_then_set convert_to_integer"
  by (intro ext) (simp add: set_integer_def convert_then_set_def)

lemma set_integer32_composes: "set_integer32 = convert_then_set convert_to_integer32"
  by (intro ext) (simp add: set_integer32_def convert_then_set_def)

lemma set_counter32_composes: "set_counter32 = convert_then_set convert_to_counter32"
  by (intro ext) (simp add: set_counter32_def convert_then_set_def)

lemma set_counter64_composes: "set_counter64 = convert_then_set convert_to_counter64"
  by (intro ext) (simp add: set_counter64_def convert_then_set_def)

lemma set_gauge32_composes: "set_gauge32 = convert_then_set convert_to_gauge32"
  by (intro ext) (simp add: set_gauge32_def convert_then_set_def)

lemma set_unsigned32_composes: "set_unsigned32 = convert_then_set convert_to_unsigned32"
  by (intro ext) (simp add: set_unsigned32_def convert_then_set_def)

lemma set_timeticks_composes: "set_timeticks = convert_then_set convert_to_timeticks"
  by (intro ext) (simp add: set_timeticks_def convert_then_set_def)

text \<open>\<open>set_octetstring\<close> never reaches \<open>set\<close>: it fails on every argument list.\<close>

lemma set_octetstring_never_sets:
  "\<exists>e. set_octetstring lib s args = (Inl e, s)"
  by (simp add: set_octetstring_def global_oid_def split: list.splits sum.splits)

text \<open>
  Claim C5, at a failing input. The claim has \<open>set_octetstring\<close> take an OID and a raw
  value and do what the conversion followed by \<open>set\<close> does. Called with
  \<open>.1.3.6.1.2.1.1.6.0\<close> and \<open>Test\<close> it is a TypeError, the method having one parameter;
  called with \<open>Test\<close> alone it is a NameError on \<open>oid\<close>. Neither call starts an
  exchange, while the conversion followed by \<open>set\<close> succeeds on the same session.
\<close>

theorem set_octetstring_fails:
  "set_octetstring (agent accepted) example_session [PyStr ''.1.3.6.1.2.1.1.6.0'', PyStr ''Test'']
     = (Inl (TypeError ''set_octetstring() takes exactly 2 arguments''), example_session)
   \<and> set_octetstring (agent accepted) example_session [PyStr ''Test'']
     = (Inl (NameError ''oid''), example_session)
   \<and> fst (convert_then_set convert_to_octetstring (agent accepted) example_session
            ''.1.3.6.1.2.1.1.6.0'' (PyStr ''Test'')) = Inr ()"
  by (simp add: set_octetstring_def global_oid_def convert_then_set_def
      convert_to_octetstring_def rfc1902_def set_op_def eval_session eval_parse)

end
